theory Spec2Isabelle
  imports Main "HOL-Library.Word"
begin

section \<open>The send worker of ptp4u (ptp4u/server/worker.go)\<close>

text \<open>
  The worker owns two UDP sockets and a queue of jobs. Every job is a pointer to a
  subscribed client; the worker sends the packet the client is due, and at the end of the
  loop body advances the client's sequence number and reports two gauges.

  Everything the worker calls outside its own file (the socket layer, the serializer, the
  timestamp reader, the length of the channel) is a parameter of the model: a record of
  functions over an abstract world \<open>'w\<close>, threaded through the calls in program order.
  Every such call, every call to the stats sink and every log line is also written to a
  list of events, in program order, so that a statement about what the worker did is a
  statement about that list.
\<close>

subsection \<open>Data\<close>

type_synonym error = string
type_synonym sockaddr = string
type_synonym fd = int
type_synonym conn = nat
type_synonym bytes = "8 word list"

text \<open>A \<open>time.Time\<close> as nanoseconds, a \<open>time.Duration\<close> likewise; \<open>Time.Add\<close> is addition.\<close>

type_synonym time = int

text \<open>
  \<open>ptp.MessageType\<close>: the four types the worker names, and every other value of the
  protocol's type field.
\<close>

datatype MessageType =
    MessageSync
  | MessageFollowUp
  | MessageAnnounce
  | MessageDelayResp
  | MessageOther nat

text \<open>
  \<open>Config.TimestampType\<close>: the two constants the worker compares with, and every other
  value the field can hold.
\<close>

datatype TimestampType = HWTIMESTAMP | SWTIMESTAMP | OTHERTIMESTAMP string

record Config =
  IP :: string
  Interface :: string
  TimestampType :: TimestampType
  UTCOffset :: int

text \<open>
  Modelled from the spec: the packet values and the client's builders (\<open>syncPacket\<close>,
  \<open>followupPacket\<close>, \<open>announcePacket\<close>) are defined outside worker.go. The spec gives the
  client contract as \<open>buildSync(seq)\<close>, \<open>buildFollowUp(seq, originTimestamp)\<close>,
  \<open>buildAnnounce(seq)\<close> and a precomputed Delay-Response payload, with \<open>seq\<close> the client's
  current sequence number. A packet keeps exactly those arguments.
\<close>

datatype 'n Packet =
    Sync 'n
  | FollowUp 'n time
  | Announce 'n
  | DelayResp bytes

text \<open>
  \<open>SubscriptionClient\<close>, the fields the worker reads or writes. The declaration of
  \<open>sequenceID\<close> is outside worker.go, which only does \<open>c.sequenceID++\<close>; its type is the
  parameter \<open>'n\<close>, and \<open>++\<close> is \<open>+ 1\<close> of that type (wrapping when \<open>'n\<close> is a word).
\<close>

record 'n SubscriptionClient =
  eclisa :: sockaddr
  gclisa :: sockaddr
  subscriptionType :: MessageType
  sequenceID :: 'n
  delayRespP :: bytes

definition syncPacket :: "'n SubscriptionClient \<Rightarrow> 'n Packet" where
  "syncPacket c = Sync (sequenceID c)"

definition followupPacket :: "'n SubscriptionClient \<Rightarrow> time \<Rightarrow> 'n Packet" where
  "followupPacket c ts = FollowUp (sequenceID c) ts"

definition announcePacket :: "'n SubscriptionClient \<Rightarrow> 'n Packet" where
  "announcePacket c = Announce (sequenceID c)"

text \<open>
  \<open>sendWorker\<close>. The queue is the list of pointers the channel delivers before it is
  closed; \<open>None\<close> is the nil pointer. The worker only reads \<open>load\<close>, and the model
  reads the value the record holds. The stats sink is the event list.
\<close>

record sendWorker =
  id_worker :: int
  queue :: "nat option list"
  load :: int
  config :: Config

subsection \<open>Events\<close>

datatype level = Tracef | Debugf | Warningf | Errorf | Fatalf

datatype event =
    ListenUDP string "error + conn"
  | ConnFd conn "error + fd"
  | EnableHW fd string "error option"
  | EnableSW fd "error option"
  | Sendto fd bytes sockaddr "error option"
  | ReadTX fd time int "error option"
  | IncTX MessageType
  | SetMaxTXTSAttempts int int
  | SetMaxWorkerLoad int int
  | SetMaxWorkerQueue int int
  | Log level string
  | Close conn

subsection \<open>The world outside the worker\<close>

text \<open>
  \<open>bytesTo p\<close> is \<open>ptp.BytesTo(p, buf)\<close> followed by \<open>buf[:n]\<close>: the bytes written, or the
  error. \<open>queueLen\<close> is \<open>len(s.queue)\<close>, which depends on the producer.
\<close>

record ('w, 'n) sys =
  listenUDP :: "'w \<Rightarrow> string \<Rightarrow> 'w \<times> (error + conn)"
  connFd :: "'w \<Rightarrow> conn \<Rightarrow> 'w \<times> (error + fd)"
  enableHWTimestampsSocket :: "'w \<Rightarrow> fd \<Rightarrow> string \<Rightarrow> 'w \<times> error option"
  enableSWTimestampsSocket :: "'w \<Rightarrow> fd \<Rightarrow> 'w \<times> error option"
  sendto :: "'w \<Rightarrow> fd \<Rightarrow> bytes \<Rightarrow> sockaddr \<Rightarrow> 'w \<times> error option"
  readTXtimestampBuf :: "'w \<Rightarrow> fd \<Rightarrow> 'w \<times> time \<times> int \<times> error option"
  bytesTo :: "'n Packet \<Rightarrow> error + bytes"
  queueLen :: "'w \<Rightarrow> int"

subsection \<open>The loop body\<close>

text \<open>
  How a case of the \<open>switch\<close> ends: it falls out of the switch (\<open>Next\<close>), it executes
  \<open>continue\<close>, or it executes \<open>return\<close>.
\<close>

datatype flow = Next | Continue | Return

text \<open>\<open>case ptp.MessageSync\<close>, lines 93 to 137.\<close>

definition sendSync ::
  "('w, 'n) sys \<Rightarrow> sendWorker \<Rightarrow> fd \<Rightarrow> fd \<Rightarrow> 'n SubscriptionClient \<Rightarrow> 'w \<Rightarrow> event list \<times> flow \<times> 'w"
where
  "sendSync sys s eFd gFd c w =
    (case bytesTo sys (syncPacket c) of
       Inl err \<Rightarrow> ([Log Errorf ''Failed to generate the sync packet: %v''], Continue, w)
     | Inr b \<Rightarrow>
       (let l1 = [Log Debugf ''Sending sync'', Log Tracef ''Sending sync %+v to %s from %d''] in
        case sendto sys w eFd b (eclisa c) of
          (w1, Some err) \<Rightarrow>
            (l1 @ [Sendto eFd b (eclisa c) (Some err),
                   Log Errorf ''Failed to send the sync packet: %v''], Continue, w1)
        | (w1, None) \<Rightarrow>
          (let l2 = l1 @ [Sendto eFd b (eclisa c) None, IncTX (subscriptionType c)] in
           case readTXtimestampBuf sys w1 eFd of
             (w2, txTS, attempts, Some err) \<Rightarrow>
               (l2 @ [ReadTX eFd txTS attempts (Some err),
                      SetMaxTXTSAttempts (id_worker s) attempts,
                      Log Warningf ''Failed to read TX timestamp: %v''], Continue, w2)
           | (w2, txTS, attempts, None) \<Rightarrow>
             (let txTS' = (if TimestampType (config s) \<noteq> HWTIMESTAMP
                           then txTS + UTCOffset (config s) else txTS);
                  l3 = l2 @ [ReadTX eFd txTS attempts None,
                             SetMaxTXTSAttempts (id_worker s) attempts,
                             Log Debugf ''Read TX timestamp: %v''] in
              case bytesTo sys (followupPacket c txTS') of
                Inl err \<Rightarrow>
                  (l3 @ [Log Errorf ''Failed to generate the followup packet: %v''], Continue, w2)
              | Inr b' \<Rightarrow>
                (let l4 = l3 @ [Log Debugf ''Sending followup'',
                                Log Tracef ''Sending followup %+v with ts: %s to %s from %d''] in
                 case sendto sys w2 gFd b' (gclisa c) of
                   (w3, Some err) \<Rightarrow>
                     (l4 @ [Sendto gFd b' (gclisa c) (Some err),
                            Log Errorf ''Failed to send the followup packet: %v''], Continue, w3)
                 | (w3, None) \<Rightarrow>
                     (l4 @ [Sendto gFd b' (gclisa c) None, IncTX MessageFollowUp], Next, w3))))))"

text \<open>\<open>case ptp.MessageAnnounce\<close>, lines 138 to 154.\<close>

definition sendAnnounce ::
  "('w, 'n) sys \<Rightarrow> fd \<Rightarrow> 'n SubscriptionClient \<Rightarrow> 'w \<Rightarrow> event list \<times> flow \<times> 'w"
where
  "sendAnnounce sys gFd c w =
    (case bytesTo sys (announcePacket c) of
       Inl err \<Rightarrow> ([Log Errorf ''Failed to prepare the announce packet: %v''], Continue, w)
     | Inr b \<Rightarrow>
       (let l1 = [Log Debugf ''Sending announce'',
                  Log Tracef ''Sending announce %+v to %s from %d''] in
        case sendto sys w gFd b (gclisa c) of
          (w1, Some err) \<Rightarrow>
            (l1 @ [Sendto gFd b (gclisa c) (Some err),
                   Log Errorf ''Failed to send the announce packet: %v''], Continue, w1)
        | (w1, None) \<Rightarrow>
            (l1 @ [Sendto gFd b (gclisa c) None, IncTX (subscriptionType c)], Next, w1)))"

text \<open>\<open>case ptp.MessageDelayResp\<close>, lines 156 to 171.\<close>

definition sendDelayResp ::
  "('w, 'n) sys \<Rightarrow> fd \<Rightarrow> 'n SubscriptionClient \<Rightarrow> 'w \<Rightarrow> event list \<times> flow \<times> 'w"
where
  "sendDelayResp sys gFd c w =
    (case bytesTo sys (DelayResp (delayRespP c)) of
       Inl err \<Rightarrow> ([Log Errorf ''Failed to prepare the delay response packet: %v''], Continue, w)
     | Inr b \<Rightarrow>
       (let l1 = [Log Debugf ''Sending delay response'',
                  Log Tracef ''Sending delay response %+v to %s from %d''] in
        case sendto sys w gFd b (gclisa c) of
          (w1, Some err) \<Rightarrow>
            (l1 @ [Sendto gFd b (gclisa c) (Some err),
                   Log Errorf ''Failed to send the delay response: %v''], Return, w1)
        | (w1, None) \<Rightarrow>
            (l1 @ [Sendto gFd b (gclisa c) None, IncTX (subscriptionType c)], Next, w1)))"

text \<open>
  The body of \<open>for c := range s.queue\<close>, lines 90 to 180, for a non-nil \<open>c\<close> stored at
  address \<open>p\<close>. Lines 178 to 180 run only when the switch was left by falling out of it.
\<close>

definition job ::
  "('w, 'n::{plus,one}) sys \<Rightarrow> sendWorker \<Rightarrow> fd \<Rightarrow> fd \<Rightarrow> nat \<Rightarrow> 'w \<Rightarrow> (nat \<Rightarrow> 'n SubscriptionClient)
     \<Rightarrow> event list \<times> flow \<times> 'w \<times> (nat \<Rightarrow> 'n SubscriptionClient)"
where
  "job sys s eFd gFd p w cl =
    (let c = cl p;
         l0 = [Log Debugf ''Processing client: %s'']
     in case (case subscriptionType c of
                MessageSync \<Rightarrow> sendSync sys s eFd gFd c w
              | MessageAnnounce \<Rightarrow> sendAnnounce sys gFd c w
              | MessageDelayResp \<Rightarrow> sendDelayResp sys gFd c w
              | MessageFollowUp \<Rightarrow> ([Log Errorf ''Unknown subscription type: %v''], Continue, w)
              | MessageOther k \<Rightarrow> ([Log Errorf ''Unknown subscription type: %v''], Continue, w)) of
          (evs, Next, w') \<Rightarrow>
            (l0 @ evs @ [SetMaxWorkerLoad (id_worker s) (load s),
                         SetMaxWorkerQueue (id_worker s) (queueLen sys w')],
             Next, w', cl(p := c\<lparr>sequenceID := sequenceID c + 1\<rparr>))
        | (evs, Continue, w') \<Rightarrow> (l0 @ evs, Continue, w', cl)
        | (evs, Return, w') \<Rightarrow> (l0 @ evs, Return, w', cl))"

subsection \<open>The loop\<close>

text \<open>
  How \<open>Start\<close> ends: it returns, \<open>log.Fatalf\<close> ends the process (logrus logs and calls
  \<open>os.Exit(1)\<close>, which runs no deferred call), or it panics on a nil client (deferred calls
  run while the panic unwinds).
\<close>

datatype outcome = Returned | Exited | Panicked

text \<open>
  \<open>for c := range s.queue\<close>. The result is the events of each job received, in order, how
  the loop ended, the jobs never received, the world and the clients.
\<close>

fun loop ::
  "('w, 'n::{plus,one}) sys \<Rightarrow> sendWorker \<Rightarrow> fd \<Rightarrow> fd \<Rightarrow> nat option list \<Rightarrow> 'w
     \<Rightarrow> (nat \<Rightarrow> 'n SubscriptionClient)
     \<Rightarrow> event list list \<times> outcome \<times> nat option list \<times> 'w \<times> (nat \<Rightarrow> 'n SubscriptionClient)"
where
  "loop sys s eFd gFd [] w cl = ([], Returned, [], w, cl)"
| "loop sys s eFd gFd (None # qs) w cl = ([[]], Panicked, qs, w, cl)"
| "loop sys s eFd gFd (Some p # qs) w cl =
    (case job sys s eFd gFd p w cl of
       (evs, Return, w', cl') \<Rightarrow> ([evs], Returned, qs, w', cl')
     | (evs, fl, w', cl') \<Rightarrow>
       (case loop sys s eFd gFd qs w' cl' of
          (es, out, rest, w'', cl'') \<Rightarrow> (evs # es, out, rest, w'', cl'')))"

subsection \<open>Start\<close>

record ('w, 'n) run =
  outcome :: outcome
  startup :: "event list"
  jobs :: "event list list"
  teardown :: "event list"
  pending :: "nat option list"
  world :: 'w
  clients :: "nat \<Rightarrow> 'n SubscriptionClient"

definition trace :: "('w, 'n) run \<Rightarrow> event list" where
  "trace r = startup r @ concat (jobs r) @ teardown r"

text \<open>A \<open>log.Fatalf\<close> during startup: the process ends there, with the queue untouched.\<close>

definition fatal ::
  "event list \<Rightarrow> sendWorker \<Rightarrow> 'w \<Rightarrow> (nat \<Rightarrow> 'n SubscriptionClient) \<Rightarrow> ('w, 'n) run"
where
  "fatal evs s w cl =
    \<lparr>outcome = Exited, startup = evs, jobs = [], teardown = [], pending = queue s,
     world = w, clients = cl\<rparr>"

text \<open>\<open>switch s.config.TimestampType\<close>, lines 52 to 63: the events, the world, and whether
  the worker goes on.\<close>

definition enableTimestamps ::
  "('w, 'n) sys \<Rightarrow> Config \<Rightarrow> fd \<Rightarrow> 'w \<Rightarrow> event list \<times> 'w \<times> bool"
where
  "enableTimestamps sys cfg eFd w =
    (case TimestampType cfg of
       HWTIMESTAMP \<Rightarrow>
         (case enableHWTimestampsSocket sys w eFd (Interface cfg) of
            (w1, Some err) \<Rightarrow>
              ([EnableHW eFd (Interface cfg) (Some err),
                Log Fatalf ''Failed to enable RX hardware timestamps: %v''], w1, False)
          | (w1, None) \<Rightarrow> ([EnableHW eFd (Interface cfg) None], w1, True))
     | SWTIMESTAMP \<Rightarrow>
         (case enableSWTimestampsSocket sys w eFd of
            (w1, Some err) \<Rightarrow>
              ([EnableSW eFd (Some err),
                Log Fatalf ''Unable to enable RX software timestamps''], w1, False)
          | (w1, None) \<Rightarrow> ([EnableSW eFd None], w1, True))
     | OTHERTIMESTAMP t \<Rightarrow> ([Log Fatalf ''Unrecognized timestamp type: %s''], w, False))"

text \<open>
  \<open>sendWorker.Start\<close>, lines 38 to 182. The two deferred \<open>Close\<close> calls run, last
  registered first, when the function returns or panics; they do not run when
  \<open>log.Fatalf\<close> ends the process.
\<close>

definition Start ::
  "('w, 'n::{plus,one}) sys \<Rightarrow> sendWorker \<Rightarrow> 'w \<Rightarrow> (nat \<Rightarrow> 'n SubscriptionClient) \<Rightarrow> ('w, 'n) run"
where
  "Start sys s w cl =
    (case listenUDP sys w (IP (config s)) of
       (w1, Inl err) \<Rightarrow>
         fatal [ListenUDP (IP (config s)) (Inl err),
                Log Fatalf ''Binding to event socket error: %s''] s w1 cl
     | (w1, Inr econn) \<Rightarrow>
       (let l1 = [ListenUDP (IP (config s)) (Inr econn)] in
        case connFd sys w1 econn of
          (w2, Inl err) \<Rightarrow>
            fatal (l1 @ [ConnFd econn (Inl err),
                         Log Fatalf ''Getting event connection FD: %s'']) s w2 cl
        | (w2, Inr eFd) \<Rightarrow>
          (let l2 = l1 @ [ConnFd econn (Inr eFd)] in
           case enableTimestamps sys (config s) eFd w2 of
             (evs, w3, False) \<Rightarrow> fatal (l2 @ evs) s w3 cl
           | (evs, w3, True) \<Rightarrow>
             (let l3 = l2 @ evs in
              case listenUDP sys w3 (IP (config s)) of
                (w4, Inl err) \<Rightarrow>
                  fatal (l3 @ [ListenUDP (IP (config s)) (Inl err),
                               Log Fatalf ''Binding to general socket error: %s'']) s w4 cl
              | (w4, Inr gconn) \<Rightarrow>
                (let l4 = l3 @ [ListenUDP (IP (config s)) (Inr gconn)] in
                 case connFd sys w4 gconn of
                   (w5, Inl err) \<Rightarrow>
                     fatal (l4 @ [ConnFd gconn (Inl err),
                                  Log Fatalf ''Getting general connection FD: %s'']) s w5 cl
                 | (w5, Inr gFd) \<Rightarrow>
                   (case loop sys s eFd gFd (queue s) w5 cl of
                      (es, out, rest, w6, cl') \<Rightarrow>
                        \<lparr>outcome = out, startup = l4 @ [ConnFd gconn (Inr gFd)], jobs = es,
                         teardown = [Close gconn, Close econn], pending = rest,
                         world = w6, clients = cl'\<rparr>))))))"

subsection \<open>The timestamp retrieval loop\<close>

text \<open>
  Modelled from the spec: \<open>ptp.ReadTXtimestampBuf\<close> is defined outside worker.go. The
  spec describes it as a bounded number of read attempts against the socket's error
  channel, counting attempts; it ends with success the first time a matching timestamp is
  found and with failure after the attempt bound is exhausted. \<open>recv\<close> is one read
  attempt, \<open>r\<close> the attempts left and \<open>k\<close> the attempts made.
\<close>

fun retrieve ::
  "('w \<Rightarrow> fd \<Rightarrow> 'w \<times> time option) \<Rightarrow> nat \<Rightarrow> nat \<Rightarrow> 'w \<Rightarrow> fd \<Rightarrow> 'w \<times> time \<times> int \<times> error option"
where
  "retrieve recv 0 k w fd = (w, 0, int k, Some ''no TX timestamp found'')"
| "retrieve recv (Suc r) k w fd =
    (case recv w fd of
       (w', Some ts) \<Rightarrow> (w', ts, int (Suc k), None)
     | (w', None) \<Rightarrow> retrieve recv r (Suc k) w' fd)"

definition ReadTXtimestampBuf ::
  "nat \<Rightarrow> ('w \<Rightarrow> fd \<Rightarrow> 'w \<times> time option) \<Rightarrow> 'w \<Rightarrow> fd \<Rightarrow> 'w \<times> time \<times> int \<times> error option"
where
  "ReadTXtimestampBuf maxTXTS recv w fd = retrieve recv maxTXTS 0 w fd"

subsection \<open>Observations on the events of a job\<close>

text \<open>A step of the job failed: the worker logged at error or warning level.\<close>

fun isFailure :: "event \<Rightarrow> bool" where
  "isFailure (Log Errorf m) = True"
| "isFailure (Log Warningf m) = True"
| "isFailure e = False"

definition failed :: "event list \<Rightarrow> bool" where
  "failed evs = (filter isFailure evs \<noteq> [])"

fun isSendto :: "event \<Rightarrow> bool" where
  "isSendto (Sendto f b a r) = True"
| "isSendto e = False"

fun isStat :: "event \<Rightarrow> bool" where
  "isStat (IncTX t) = True"
| "isStat (SetMaxTXTSAttempts i n) = True"
| "isStat (SetMaxWorkerLoad i n) = True"
| "isStat (SetMaxWorkerQueue i n) = True"
| "isStat e = False"

fun isGauge :: "event \<Rightarrow> bool" where
  "isGauge (SetMaxWorkerLoad i n) = True"
| "isGauge (SetMaxWorkerQueue i n) = True"
| "isGauge e = False"

text \<open>A startup step failed, or the worker called \<open>log.Fatalf\<close>.\<close>

fun startupFailure :: "event \<Rightarrow> bool" where
  "startupFailure (ListenUDP ip (Inl e)) = True"
| "startupFailure (ConnFd c (Inl e)) = True"
| "startupFailure (EnableHW f i (Some e)) = True"
| "startupFailure (EnableSW f (Some e)) = True"
| "startupFailure (Log Fatalf m) = True"
| "startupFailure e = False"

subsection \<open>A scripted world for concrete runs\<close>

text \<open>
  The world is a script of outcomes, one per call in program order (\<open>True\<close> for success;
  a script that has run out answers success), and the number of calls made. Sockets are
  numbered by the call that opened them, and the descriptor of socket \<open>c\<close> is \<open>c + 3\<close>.
  A successful retrieval returns the time 100 at the first attempt. A packet is encoded as
  its type, the low byte of its sequence number and, for a Follow-Up, the low byte of its
  timestamp.
\<close>

type_synonym script = "bool list \<times> nat"

fun step :: "script \<Rightarrow> script \<times> bool" where
  "step ([], k) = (([], Suc k), True)"
| "step (b # bs, k) = ((bs, Suc k), b)"

definition answer :: "script \<Rightarrow> 'a \<Rightarrow> 'a \<Rightarrow> script \<times> 'a" where
  "answer w good bad = (case step w of (w', ok) \<Rightarrow> (w', if ok then good else bad))"

fun encode :: "16 word Packet \<Rightarrow> error + bytes" where
  "encode (Sync n) = Inr [0, ucast n]"
| "encode (FollowUp n t) = Inr [8, ucast n, word_of_int t]"
| "encode (Announce n) = Inr [11, ucast n]"
| "encode (DelayResp b) = (if b = [] then Inl ''short buffer'' else Inr (9 # b))"

definition scripted :: "(script, 16 word) sys" where
  "scripted =
    \<lparr>listenUDP = (\<lambda>w ip. answer w (Inr (snd w)) (Inl ''address already in use'')),
     connFd = (\<lambda>w c. answer w (Inr (int c + 3)) (Inl ''bad file descriptor'')),
     enableHWTimestampsSocket = (\<lambda>w f i. answer w None (Some ''operation not supported'')),
     enableSWTimestampsSocket = (\<lambda>w f. answer w None (Some ''operation not supported'')),
     sendto = (\<lambda>w f b a. answer w None (Some ''network is unreachable'')),
     readTXtimestampBuf =
       (\<lambda>w f. case step w of
                 (w', ok) \<Rightarrow> if ok then (w', 100, 1, None)
                            else (w', 0, 100, Some ''no TX timestamp found'')),
     bytesTo = encode,
     queueLen = (\<lambda>w. int (length (fst w)))\<rparr>"

definition scriptedRecv :: "script \<Rightarrow> fd \<Rightarrow> script \<times> time option" where
  "scriptedRecv w f = answer w (Some 100) None"

definition client ::
  "MessageType \<Rightarrow> 16 word \<Rightarrow> 16 word SubscriptionClient"
where
  "client t n =
    \<lparr>eclisa = ''10.0.0.5:319'', gclisa = ''10.0.0.5:320'', subscriptionType = t,
     sequenceID = n, delayRespP = [1]\<rparr>"

text \<open>The clients in which every address holds a copy of \<open>c\<close>.\<close>

definition everyone :: "'n SubscriptionClient \<Rightarrow> nat \<Rightarrow> 'n SubscriptionClient" where
  "everyone c p = c"

definition worker :: "TimestampType \<Rightarrow> nat option list \<Rightarrow> sendWorker" where
  "worker t q =
    \<lparr>id_worker = 7, queue = q, load = 2,
     config = \<lparr>IP = ''::'', Interface = ''eth0'', TimestampType = t, UTCOffset = 37\<rparr>\<rparr>"

section \<open>Properties\<close>

subsection \<open>One job\<close>

lemmas job_defs = job_def sendSync_def sendAnnounce_def sendDelayResp_def Let_def

lemmas packet_defs = syncPacket_def followupPacket_def announcePacket_def

lemmas scripted_defs = scripted_def answer_def worker_def everyone_def client_def

text \<open>
  The clients change only in a job that logs no failure, and then only by the increment
  of the job's own client; \<open>return\<close> is reached only after a failure.
\<close>

lemma job_store:
  assumes "job sys s eFd gFd p w cl = (evs, fl, w', cl')"
  shows "failed evs \<Longrightarrow> cl' = cl"
    "\<not> failed evs \<Longrightarrow> fl = Next \<and> cl' = cl(p := (cl p)\<lparr>sequenceID := sequenceID (cl p) + 1\<rparr>)"
    "fl = Return \<Longrightarrow> failed evs"
    "evs \<noteq> []"
  using assms
  by (auto simp: job_defs failed_def
           split: MessageType.splits sum.splits prod.splits option.splits)

lemma job_gauges:
  assumes "job sys s eFd gFd p w cl = (evs, fl, w', cl')"
  shows "if failed evs then filter isGauge evs = []
         else \<exists>pre. evs = pre @ [SetMaxWorkerLoad (id_worker s) (load s),
                                  SetMaxWorkerQueue (id_worker s) (queueLen sys w')]
                    \<and> filter isGauge pre = []"
  using assms
  by (auto simp: job_defs failed_def
           split: MessageType.splits sum.splits prod.splits option.splits)

text \<open>The one path of a job that counts a Follow-Up, with every call on it.\<close>

lemma job_followup:
  assumes "job sys s eFd gFd p w cl = (evs, fl, w', cl')"
    and "IncTX MessageFollowUp \<in> set evs"
  shows "\<exists>b w1 ts n w2 b'.
          subscriptionType (cl p) = MessageSync \<and>
          bytesTo sys (syncPacket (cl p)) = Inr b \<and>
          sendto sys w eFd b (eclisa (cl p)) = (w1, None) \<and>
          readTXtimestampBuf sys w1 eFd = (w2, ts, n, None) \<and>
          bytesTo sys (followupPacket (cl p)
                        (if TimestampType (config s) \<noteq> HWTIMESTAMP
                         then ts + UTCOffset (config s) else ts)) = Inr b' \<and>
          sendto sys w2 gFd b' (gclisa (cl p)) = (w', None) \<and>
          evs = [Log Debugf ''Processing client: %s'', Log Debugf ''Sending sync'',
                 Log Tracef ''Sending sync %+v to %s from %d'',
                 Sendto eFd b (eclisa (cl p)) None, IncTX MessageSync,
                 ReadTX eFd ts n None, SetMaxTXTSAttempts (id_worker s) n,
                 Log Debugf ''Read TX timestamp: %v'', Log Debugf ''Sending followup'',
                 Log Tracef ''Sending followup %+v with ts: %s to %s from %d'',
                 Sendto gFd b' (gclisa (cl p)) None, IncTX MessageFollowUp,
                 SetMaxWorkerLoad (id_worker s) (load s),
                 SetMaxWorkerQueue (id_worker s) (queueLen sys w')] \<and>
          fl = Next \<and>
          cl' = cl(p := (cl p)\<lparr>sequenceID := sequenceID (cl p) + 1\<rparr>)"
  using assms
  by (auto simp: job_defs
           split: MessageType.splits sum.splits prod.splits option.splits if_splits)

lemma job_counts:
  assumes "job sys s eFd gFd p w cl = (evs, fl, w', cl')"
  shows "count_list evs (IncTX MessageFollowUp) \<le> count_list evs (IncTX MessageSync)"
    "failed evs \<Longrightarrow> IncTX MessageFollowUp \<notin> set evs"
  using assms
  by (auto simp: job_defs failed_def
           split: MessageType.splits sum.splits prod.splits option.splits)

lemma job_sockets:
  assumes "job sys s eFd gFd p w cl = (evs, fl, w', cl')"
  shows "ListenUDP ip x \<notin> set evs" "Close c \<notin> set evs"
  using assms
  by (auto simp: job_defs
           split: MessageType.splits sum.splits prod.splits option.splits)

lemma retrieve_exhausted:
  "retrieve recv r k w f = (w', ts, n, Some err) \<Longrightarrow> n = int (k + r)"
  by (induction r arbitrary: k w) (fastforce split: prod.splits option.splits)+

subsection \<open>The loop\<close>

text \<open>One step of the loop on a non-nil job, in the two ways it can go on.\<close>

lemma loop_step:
  assumes "job sys s eFd gFd p w cl = (e1, fl, w1, cl1)"
    and "loop sys s eFd gFd (Some p # qs) w cl = (es, out, rest, w', cl')"
  shows "fl = Return \<Longrightarrow> es = [e1] \<and> out = Returned \<and> rest = qs \<and> w' = w1 \<and> cl' = cl1"
    "fl \<noteq> Return \<Longrightarrow>
       \<exists>es'. es = e1 # es' \<and> loop sys s eFd gFd qs w1 cl1 = (es', out, rest, w', cl')"
  using assms by (cases fl; auto split: prod.splits)+

lemma loop_outcome:
  "loop sys s eFd gFd qs w cl = (es, out, rest, w', cl') \<Longrightarrow> out \<noteq> Exited"
proof (induction qs arbitrary: w cl es)
  case Nil
  then show ?case by simp
next
  case (Cons q qs)
  then show ?case
    by (cases q) (auto split: prod.splits flow.splits)
qed

lemma loop_jobs:
  assumes "loop sys s eFd gFd qs w cl = (es, out, rest, w', cl')"
    and "evs \<in> set es"
  shows "evs = [] \<or> (\<exists>p w0 cl0 fl w1 cl1. job sys s eFd gFd p w0 cl0 = (evs, fl, w1, cl1))"
  using assms
proof (induction qs arbitrary: w cl es out rest w' cl')
  case Nil
  then show ?case by simp
next
  case (Cons q qs)
  show ?case
  proof (cases q)
    case None
    with Cons.prems show ?thesis by auto
  next
    case (Some p)
    obtain e1 fl w1 cl1 where j: "job sys s eFd gFd p w cl = (e1, fl, w1, cl1)"
      by (metis prod_cases4)
    note l = Cons.prems(1) [unfolded Some]
    show ?thesis
    proof (cases "fl = Return")
      case True
      with loop_step(1) [OF j l] Cons.prems(2) have "evs = e1" by simp
      with j show ?thesis by blast
    next
      case False
      with loop_step(2) [OF j l] obtain es' where
        r: "es = e1 # es'" "loop sys s eFd gFd qs w1 cl1 = (es', out, rest, w', cl')"
        by blast
      with Cons.prems(2) have "evs = e1 \<or> evs \<in> set es'" by auto
      then show ?thesis
      proof
        assume "evs = e1"
        with j show ?thesis by blast
      next
        assume "evs \<in> set es'"
        with Cons.IH [OF r(2)] show ?thesis .
      qed
    qed
  qed
qed

text \<open>
  A client's sequence number after the loop: one increment for each job of that client
  that logged no failure.
\<close>

lemma loop_sequence:
  fixes cl :: "nat \<Rightarrow> ('n::semiring_1) SubscriptionClient"
  assumes "loop sys s eFd gFd qs w cl = (es, out, rest, w', cl')"
  shows "sequenceID (cl' p) = sequenceID (cl p) +
           of_nat (length (filter (\<lambda>(q, evs). q = Some p \<and> \<not> failed evs) (zip qs es)))"
  using assms
proof (induction qs arbitrary: w cl es out rest w' cl')
  case Nil
  then show ?case by simp
next
  case (Cons q qs)
  show ?case
  proof (cases q)
    case None
    with Cons.prems show ?thesis by auto
  next
    case (Some a)
    obtain e1 fl w1 cl1 where j: "job sys s eFd gFd a w cl = (e1, fl, w1, cl1)"
      by (metis prod_cases4)
    note l = Cons.prems(1) [unfolded Some]
    have one: "sequenceID (cl1 p) =
                 sequenceID (cl p) + (if a = p \<and> \<not> failed e1 then 1 else 0)"
      using job_store(1,2) [OF j] by (cases "failed e1") auto
    show ?thesis
    proof (cases "fl = Return")
      case True
      with loop_step(1) [OF j l] have r: "es = [e1]" "cl' = cl1" by simp_all
      from True job_store(3) [OF j] have "failed e1" by simp
      with r one Some show ?thesis by simp
    next
      case False
      with loop_step(2) [OF j l] obtain es' where
        r: "es = e1 # es'" "loop sys s eFd gFd qs w1 cl1 = (es', out, rest, w', cl')"
        by blast
      from Cons.IH [OF r(2)] r(1) one Some show ?thesis
        by (simp add: add.assoc)
    qed
  qed
qed

lemma loop_counts:
  assumes "loop sys s eFd gFd qs w cl = (es, out, rest, w', cl')"
  shows "count_list (concat es) (IncTX MessageFollowUp)
           \<le> count_list (concat es) (IncTX MessageSync)"
  using assms
proof (induction qs arbitrary: w cl es out rest w' cl')
  case Nil
  then show ?case by simp
next
  case (Cons q qs)
  show ?case
  proof (cases q)
    case None
    with Cons.prems show ?thesis by auto
  next
    case (Some a)
    obtain e1 fl w1 cl1 where j: "job sys s eFd gFd a w cl = (e1, fl, w1, cl1)"
      by (metis prod_cases4)
    note l = Cons.prems(1) [unfolded Some]
    show ?thesis
    proof (cases "fl = Return")
      case True
      with loop_step(1) [OF j l] job_counts(1) [OF j] show ?thesis by simp
    next
      case False
      with loop_step(2) [OF j l] obtain es' where
        r: "es = e1 # es'" "loop sys s eFd gFd qs w1 cl1 = (es', out, rest, w', cl')"
        by blast
      with Cons.IH [OF r(2)] job_counts(1) [OF j] show ?thesis by simp
    qed
  qed
qed

subsection \<open>Startup and teardown\<close>

lemma enableTimestamps_result:
  assumes "enableTimestamps sys cfg f w = (evs, w', ok)"
  shows "filter isSendto evs = []" "filter isStat evs = []"
    "ok \<Longrightarrow> TimestampType cfg \<in> {HWTIMESTAMP, SWTIMESTAMP} \<and> filter startupFailure evs = []"
  using assms
  by (auto simp: enableTimestamps_def split: TimestampType.splits prod.splits option.splits)

lemma Start_exited:
  assumes "outcome (Start sys s w cl) = Exited"
  shows "Start sys s w cl = fatal (startup (Start sys s w cl)) s (world (Start sys s w cl)) cl"
  using assms
  by (auto simp: Start_def fatal_def Let_def dest: loop_outcome
           split: prod.splits sum.splits bool.splits)

lemma Start_startup:
  "filter isSendto (startup (Start sys s w cl)) = []"
  "filter isStat (startup (Start sys s w cl)) = []"
  by (auto simp: Start_def fatal_def Let_def dest: enableTimestamps_result(1,2)
           split: prod.splits sum.splits bool.splits)

lemma Start_entered:
  assumes "outcome (Start sys s w cl) \<noteq> Exited"
  shows "TimestampType (config s) \<in> {HWTIMESTAMP, SWTIMESTAMP}"
    "filter startupFailure (startup (Start sys s w cl)) = []"
  using assms
  by (auto simp: Start_def fatal_def Let_def dest: enableTimestamps_result(3)
           split: prod.splits sum.splits bool.splits)

text \<open>A run that did not end in \<open>log.Fatalf\<close> opened both sockets and ran the loop.\<close>

lemma Start_run:
  assumes "outcome (Start sys s w cl) \<noteq> Exited"
  shows "\<exists>econn eFd en gconn gFd w5.
          startup (Start sys s w cl) =
            [ListenUDP (IP (config s)) (Inr econn), ConnFd econn (Inr eFd)] @ en @
            [ListenUDP (IP (config s)) (Inr gconn), ConnFd gconn (Inr gFd)] \<and>
          (en = [EnableHW eFd (Interface (config s)) None] \<or> en = [EnableSW eFd None]) \<and>
          teardown (Start sys s w cl) = [Close gconn, Close econn] \<and>
          loop sys s eFd gFd (queue s) w5 cl =
            (jobs (Start sys s w cl), outcome (Start sys s w cl), pending (Start sys s w cl),
             world (Start sys s w cl), clients (Start sys s w cl))"
  using assms
  by (auto simp: Start_def fatal_def Let_def enableTimestamps_def
           split: prod.splits sum.splits bool.splits TimestampType.splits option.splits)

lemma Start_startup_close: "Close c \<notin> set (startup (Start sys s w cl))"
  by (auto simp: Start_def fatal_def Let_def enableTimestamps_def
           split: prod.splits sum.splits bool.splits TimestampType.splits option.splits)

text \<open>A run that ended in \<open>log.Fatalf\<close> never entered the loop.\<close>

lemma Start_exited_fields:
  assumes "outcome (Start sys s w cl) = Exited"
  shows "jobs (Start sys s w cl) = []" "teardown (Start sys s w cl) = []"
    "pending (Start sys s w cl) = queue s" "clients (Start sys s w cl) = cl"
proof -
  let ?r = "Start sys s w cl"
  from Start_exited [OF assms] have f: "?r = fatal (startup ?r) s (world ?r) cl" .
  have "jobs (fatal (startup ?r) s (world ?r) cl) = []"
    "teardown (fatal (startup ?r) s (world ?r) cl) = ([] :: event list)"
    "pending (fatal (startup ?r) s (world ?r) cl) = queue s"
    "clients (fatal (startup ?r) s (world ?r) cl) = cl"
    by (simp_all add: fatal_def)
  with f show "jobs ?r = []" "teardown ?r = []" "pending ?r = queue s" "clients ?r = cl"
    by simp_all
qed

text \<open>The events of a job of a run are the events of the loop body, on some state.\<close>

lemma Start_jobs:
  assumes "evs \<in> set (jobs (Start sys s w cl))" and "evs \<noteq> []"
  shows "outcome (Start sys s w cl) \<noteq> Exited"
    "\<exists>eFd gFd p w0 cl0 fl w1 cl1. job sys s eFd gFd p w0 cl0 = (evs, fl, w1, cl1)"
proof -
  let ?r = "Start sys s w cl"
  show ne: "outcome ?r \<noteq> Exited"
    using Start_exited_fields(1) [of sys s w cl] assms(1) by auto
  from Start_run [OF ne] obtain eFd gFd w5 where
    lp: "loop sys s eFd gFd (queue s) w5 cl =
           (jobs ?r, outcome ?r, pending ?r, world ?r, clients ?r)"
    by blast
  from loop_jobs [OF lp assms(1)] assms(2)
  show "\<exists>eFd gFd p w0 cl0 fl w1 cl1. job sys s eFd gFd p w0 cl0 = (evs, fl, w1, cl1)"
    by blast
qed

subsection \<open>Sequence numbers and gauges\<close>

text \<open>
  C1, as amended. After a run, a client's sequence number is its number before plus one
  for each job of that client that logged no failure; a job that logged a failure (a
  build, send or retrieval step failed, or the type is unknown) changes no sequence number.
  A job that logged no failure ends with the load and the queue depth reported to the
  stats sink, in that order and only there; a job that logged a failure reports neither.
\<close>

theorem sequence_advances_per_completed_job:
  fixes cl :: "nat \<Rightarrow> ('n::semiring_1) SubscriptionClient"
  assumes "r = Start sys s w cl"
  shows "sequenceID (clients r p) = sequenceID (cl p) +
           of_nat (length (filter (\<lambda>(q, evs). q = Some p \<and> \<not> failed evs)
                                  (zip (queue s) (jobs r))))
       \<and> (\<forall>evs \<in> set (jobs r).
            if failed evs \<or> evs = [] then filter isGauge evs = []
            else \<exists>pre depth. evs = pre @ [SetMaxWorkerLoad (id_worker s) (load s),
                                          SetMaxWorkerQueue (id_worker s) depth]
                             \<and> filter isGauge pre = [])"
proof (cases "outcome r = Exited")
  case True
  with Start_exited_fields [of sys s w cl] assms
  have "jobs r = []" "clients r = cl" by simp_all
  then show ?thesis by simp
next
  case False
  with Start_run [of sys s w cl] assms obtain eFd gFd w5 where
    lp: "loop sys s eFd gFd (queue s) w5 cl =
           (jobs r, outcome r, pending r, world r, clients r)"
    by blast
  have g: "if failed evs \<or> evs = [] then filter isGauge evs = []
           else \<exists>pre depth. evs = pre @ [SetMaxWorkerLoad (id_worker s) (load s),
                                         SetMaxWorkerQueue (id_worker s) depth]
                            \<and> filter isGauge pre = []"
    if "evs \<in> set (jobs r)" for evs
  proof (cases "evs = []")
    case True
    then show ?thesis by simp
  next
    case False
    with loop_jobs [OF lp that] obtain p0 w0 cl0 fl w1 cl1 where
      j: "job sys s eFd gFd p0 w0 cl0 = (evs, fl, w1, cl1)"
      by blast
    from job_gauges [OF j] False show ?thesis
      by (cases "failed evs") auto
  qed
  from loop_sequence [OF lp, of p] g show ?thesis by blast
qed

theorem sequence_advances_per_completed_job_witness:
  "sequenceID (clients (Start scripted (worker HWTIMESTAMP [Some 0, Some 0])
                          ([True, True, True, True, True, False], 0)
                          (everyone (client MessageSync 41))) 0) = 42
   \<and> length (jobs (Start scripted (worker HWTIMESTAMP [Some 0, Some 0])
                          ([True, True, True, True, True, False], 0)
                          (everyone (client MessageSync 41)))) = 2"
proof -
  let ?r = "Start scripted (worker HWTIMESTAMP [Some 0, Some 0])
              ([True, True, True, True, True, False], 0) (everyone (client MessageSync 41))"
  have j: "jobs ?r =
      [[Log Debugf ''Processing client: %s'', Log Debugf ''Sending sync'',
        Log Tracef ''Sending sync %+v to %s from %d'',
        Sendto 3 [0, 41] ''10.0.0.5:319'' (Some ''network is unreachable''),
        Log Errorf ''Failed to send the sync packet: %v''],
       [Log Debugf ''Processing client: %s'', Log Debugf ''Sending sync'',
        Log Tracef ''Sending sync %+v to %s from %d'',
        Sendto 3 [0, 41] ''10.0.0.5:319'' None, IncTX MessageSync,
        ReadTX 3 100 1 None, SetMaxTXTSAttempts 7 1,
        Log Debugf ''Read TX timestamp: %v'', Log Debugf ''Sending followup'',
        Log Tracef ''Sending followup %+v with ts: %s to %s from %d'',
        Sendto 6 [8, 41, 100] ''10.0.0.5:320'' None, IncTX MessageFollowUp,
        SetMaxWorkerLoad 7 2, SetMaxWorkerQueue 7 0]]"
    by (simp add: Start_def enableTimestamps_def job_defs packet_defs scripted_defs)
  from sequence_advances_per_completed_job [OF refl, of scripted
         "worker HWTIMESTAMP [Some 0, Some 0]" "([True, True, True, True, True, False], 0)"
         "everyone (client MessageSync 41)" 0] j
  show ?thesis
    by (simp add: failed_def worker_def everyone_def client_def)
qed

text \<open>
  C1 as stated fails: in the run below the one job is a Sync whose send fails; the job is
  processed, the client's sequence number stays 41, and neither the load nor the queue
  depth is reported.
\<close>

theorem sequence_counterexample:
  "jobs (Start scripted (worker HWTIMESTAMP [Some 0]) ([True, True, True, True, True, False], 0)
           (everyone (client MessageSync 41))) =
     [[Log Debugf ''Processing client: %s'', Log Debugf ''Sending sync'',
       Log Tracef ''Sending sync %+v to %s from %d'',
       Sendto 3 [0, 41] ''10.0.0.5:319'' (Some ''network is unreachable''),
       Log Errorf ''Failed to send the sync packet: %v'']]
   \<and> sequenceID (clients (Start scripted (worker HWTIMESTAMP [Some 0])
                            ([True, True, True, True, True, False], 0)
                            (everyone (client MessageSync 41))) 0) = 41
   \<and> filter isGauge (trace (Start scripted (worker HWTIMESTAMP [Some 0])
                              ([True, True, True, True, True, False], 0)
                              (everyone (client MessageSync 41)))) = []"
  by (simp add: Start_def enableTimestamps_def job_defs packet_defs scripted_defs trace_def)

subsection \<open>The Sync and Follow-Up pair\<close>

text \<open>
  C2. In any run, a job that counted a Follow-Up is a Sync job with exactly these events:
  the retrieval on the event descriptor returned \<open>ts\<close> without error, and the bytes sent
  on the general descriptor are those of the Follow-Up built from \<open>ts\<close> plus the
  configured offset when the timestamp type is software, and from \<open>ts\<close> itself when it is
  hardware; a run that reaches a job has one of these two types.
\<close>

theorem followup_origin_timestamp:
  assumes "evs \<in> set (jobs (Start sys s w cl))"
    and "IncTX MessageFollowUp \<in> set evs"
  shows "\<exists>eFd gFd c b ts n b' depth.
          evs = [Log Debugf ''Processing client: %s'', Log Debugf ''Sending sync'',
                 Log Tracef ''Sending sync %+v to %s from %d'',
                 Sendto eFd b (eclisa c) None, IncTX MessageSync,
                 ReadTX eFd ts n None, SetMaxTXTSAttempts (id_worker s) n,
                 Log Debugf ''Read TX timestamp: %v'', Log Debugf ''Sending followup'',
                 Log Tracef ''Sending followup %+v with ts: %s to %s from %d'',
                 Sendto gFd b' (gclisa c) None, IncTX MessageFollowUp,
                 SetMaxWorkerLoad (id_worker s) (load s),
                 SetMaxWorkerQueue (id_worker s) depth] \<and>
          bytesTo sys (followupPacket c
                        (ts + (if TimestampType (config s) = SWTIMESTAMP
                               then UTCOffset (config s) else 0))) = Inr b' \<and>
          (TimestampType (config s) = SWTIMESTAMP \<or> TimestampType (config s) = HWTIMESTAMP)"
proof -
  from assms(2) have ne: "evs \<noteq> []" by auto
  from Start_entered(1) [OF Start_jobs(1) [OF assms(1) ne]]
  have ty: "TimestampType (config s) = SWTIMESTAMP \<or> TimestampType (config s) = HWTIMESTAMP"
    by auto
  from Start_jobs(2) [OF assms(1) ne] obtain eFd gFd p w0 cl0 fl w1 cl1 where
    j: "job sys s eFd gFd p w0 cl0 = (evs, fl, w1, cl1)"
    by blast
  from job_followup [OF j assms(2)] obtain b ts n b' where
    e: "evs = [Log Debugf ''Processing client: %s'', Log Debugf ''Sending sync'',
                 Log Tracef ''Sending sync %+v to %s from %d'',
                 Sendto eFd b (eclisa (cl0 p)) None, IncTX MessageSync,
                 ReadTX eFd ts n None, SetMaxTXTSAttempts (id_worker s) n,
                 Log Debugf ''Read TX timestamp: %v'', Log Debugf ''Sending followup'',
                 Log Tracef ''Sending followup %+v with ts: %s to %s from %d'',
                 Sendto gFd b' (gclisa (cl0 p)) None, IncTX MessageFollowUp,
                 SetMaxWorkerLoad (id_worker s) (load s),
                 SetMaxWorkerQueue (id_worker s) (queueLen sys w1)]"
    and f: "bytesTo sys (followupPacket (cl0 p)
                        (if TimestampType (config s) \<noteq> HWTIMESTAMP
                         then ts + UTCOffset (config s) else ts)) = Inr b'"
    by blast
  from ty have "(if TimestampType (config s) \<noteq> HWTIMESTAMP
                 then ts + UTCOffset (config s) else ts) =
                ts + (if TimestampType (config s) = SWTIMESTAMP
                      then UTCOffset (config s) else 0)"
    by auto
  with f have "bytesTo sys (followupPacket (cl0 p)
                        (ts + (if TimestampType (config s) = SWTIMESTAMP
                               then UTCOffset (config s) else 0))) = Inr b'"
    by simp
  with e ty show ?thesis by blast
qed

theorem followup_origin_timestamp_witness:
  "IncTX MessageFollowUp
     \<in> set (hd (jobs (Start scripted (worker SWTIMESTAMP [Some 0]) ([], 0)
                        (everyone (client MessageSync 41)))))
   \<and> (\<exists>c. bytesTo scripted (followupPacket c (100 + 37)) = Inr [8, 41, 137])"
proof -
  let ?r = "Start scripted (worker SWTIMESTAMP [Some 0]) ([], 0) (everyone (client MessageSync 41))"
  let ?e = "[Log Debugf ''Processing client: %s'', Log Debugf ''Sending sync'',
        Log Tracef ''Sending sync %+v to %s from %d'',
        Sendto 3 [0, 41] ''10.0.0.5:319'' None, IncTX MessageSync,
        ReadTX 3 100 1 None, SetMaxTXTSAttempts 7 1,
        Log Debugf ''Read TX timestamp: %v'', Log Debugf ''Sending followup'',
        Log Tracef ''Sending followup %+v with ts: %s to %s from %d'',
        Sendto 6 [8, 41, 137] ''10.0.0.5:320'' None, IncTX MessageFollowUp,
        SetMaxWorkerLoad 7 2, SetMaxWorkerQueue 7 0]"
  have j: "jobs ?r = [?e]"
    by (simp add: Start_def enableTimestamps_def job_defs packet_defs scripted_defs)
  then have a: "?e \<in> set (jobs ?r)" by simp
  have m: "IncTX MessageFollowUp \<in> set ?e" by simp
  from followup_origin_timestamp [OF a m]
  have "\<exists>c. bytesTo scripted (followupPacket c (100 + 37)) = Inr [8, 41, 137]"
    by (auto simp: worker_def)
  with j m show ?thesis by simp
qed

text \<open>
  C3. For a Sync job whose packet serializes: if the Sync send fails, the job's only send
  is that one, on the event descriptor, and nothing is counted or sent after it; if the
  Sync send succeeds and the retrieval loop ends without a timestamp, the attempt count
  it returns and the worker reports is the bound, and the job ends with no send on the
  general descriptor. The retrieval loop is the one modelled from the spec.
\<close>

theorem sync_failure_no_followup:
  assumes "subscriptionType (cl p) = MessageSync"
    and "bytesTo sys (syncPacket (cl p)) = Inr b"
    and "readTXtimestampBuf sys = ReadTXtimestampBuf maxTXTS recv"
  shows "(sendto sys w eFd b (eclisa (cl p)) = (w1, Some err) \<longrightarrow>
            job sys s eFd gFd p w cl =
              ([Log Debugf ''Processing client: %s'', Log Debugf ''Sending sync'',
                Log Tracef ''Sending sync %+v to %s from %d'',
                Sendto eFd b (eclisa (cl p)) (Some err),
                Log Errorf ''Failed to send the sync packet: %v''], Continue, w1, cl))
       \<and> (sendto sys w eFd b (eclisa (cl p)) = (w1, None) \<and>
          ReadTXtimestampBuf maxTXTS recv w1 eFd = (w2, ts, n, Some err) \<longrightarrow>
            n = int maxTXTS \<and>
            job sys s eFd gFd p w cl =
              ([Log Debugf ''Processing client: %s'', Log Debugf ''Sending sync'',
                Log Tracef ''Sending sync %+v to %s from %d'',
                Sendto eFd b (eclisa (cl p)) None, IncTX MessageSync,
                ReadTX eFd ts (int maxTXTS) (Some err),
                SetMaxTXTSAttempts (id_worker s) (int maxTXTS),
                Log Warningf ''Failed to read TX timestamp: %v''], Continue, w2, cl))"
proof (intro conjI impI)
  assume "sendto sys w eFd b (eclisa (cl p)) = (w1, Some err)"
  with assms(1,2) show "job sys s eFd gFd p w cl =
              ([Log Debugf ''Processing client: %s'', Log Debugf ''Sending sync'',
                Log Tracef ''Sending sync %+v to %s from %d'',
                Sendto eFd b (eclisa (cl p)) (Some err),
                Log Errorf ''Failed to send the sync packet: %v''], Continue, w1, cl)"
    by (simp add: job_def sendSync_def Let_def)
next
  assume h: "sendto sys w eFd b (eclisa (cl p)) = (w1, None) \<and>
          ReadTXtimestampBuf maxTXTS recv w1 eFd = (w2, ts, n, Some err)"
  then have n: "n = int maxTXTS"
    using retrieve_exhausted [of recv maxTXTS 0 w1 eFd w2 ts n err]
    by (simp add: ReadTXtimestampBuf_def)
  then show "n = int maxTXTS" .
  from h n assms show "job sys s eFd gFd p w cl =
              ([Log Debugf ''Processing client: %s'', Log Debugf ''Sending sync'',
                Log Tracef ''Sending sync %+v to %s from %d'',
                Sendto eFd b (eclisa (cl p)) None, IncTX MessageSync,
                ReadTX eFd ts (int maxTXTS) (Some err),
                SetMaxTXTSAttempts (id_worker s) (int maxTXTS),
                Log Warningf ''Failed to read TX timestamp: %v''], Continue, w2, cl)"
    by (simp add: job_def sendSync_def Let_def)
qed

theorem sync_failure_no_followup_witness:
  "job (scripted\<lparr>readTXtimestampBuf := ReadTXtimestampBuf 3 scriptedRecv\<rparr>)
       (worker HWTIMESTAMP []) 3 6 0 ([True, False, False, False], 5)
       (everyone (client MessageSync 41)) =
     ([Log Debugf ''Processing client: %s'', Log Debugf ''Sending sync'',
       Log Tracef ''Sending sync %+v to %s from %d'',
       Sendto 3 [0, 41] ''10.0.0.5:319'' None, IncTX MessageSync,
       ReadTX 3 0 3 (Some ''no TX timestamp found''), SetMaxTXTSAttempts 7 3,
       Log Warningf ''Failed to read TX timestamp: %v''],
      Continue, ([], 9), everyone (client MessageSync 41))
   \<and> job (scripted\<lparr>readTXtimestampBuf := ReadTXtimestampBuf 3 scriptedRecv\<rparr>)
       (worker HWTIMESTAMP []) 3 6 0 ([False], 5) (everyone (client MessageSync 41)) =
     ([Log Debugf ''Processing client: %s'', Log Debugf ''Sending sync'',
       Log Tracef ''Sending sync %+v to %s from %d'',
       Sendto 3 [0, 41] ''10.0.0.5:319'' (Some ''network is unreachable''),
       Log Errorf ''Failed to send the sync packet: %v''],
      Continue, ([], 6), everyone (client MessageSync 41))"
proof -
  let ?sys = "scripted\<lparr>readTXtimestampBuf := ReadTXtimestampBuf 3 scriptedRecv\<rparr>"
  let ?cl = "everyone (client MessageSync 41)"
  have t: "subscriptionType (?cl 0) = MessageSync" by (simp add: scripted_defs)
  have b: "bytesTo ?sys (syncPacket (?cl 0)) = Inr [0, 41]"
    by (simp add: packet_defs scripted_defs)
  have r: "readTXtimestampBuf ?sys = ReadTXtimestampBuf 3 scriptedRecv" by simp
  have s1: "sendto ?sys ([True, False, False, False], 5) 3 [0, 41] (eclisa (?cl 0)) =
              (([False, False, False], 6), None)"
    by (simp add: scripted_defs)
  have x: "ReadTXtimestampBuf 3 scriptedRecv ([False, False, False], 6) 3 =
              (([], 9), 0, 3, Some ''no TX timestamp found'')"
    by (simp add: ReadTXtimestampBuf_def scriptedRecv_def answer_def numeral_3_eq_3)
  have s2: "sendto ?sys ([False], 5) 3 [0, 41] (eclisa (?cl 0)) =
              (([], 6), Some ''network is unreachable'')"
    by (simp add: scripted_defs)
  from sync_failure_no_followup [where cl = ?cl and p = 0
         and w = "([True, False, False, False], 5)"
         and eFd = 3 and ?w1.0 = "([False, False, False], 6)"
         and err = "''no TX timestamp found''" and ?w2.0 = "([], 9)" and ts = 0 and n = 3
         and s = "worker HWTIMESTAMP []" and gFd = 6, OF t b r] s1 x
  have one: "job ?sys (worker HWTIMESTAMP []) 3 6 0 ([True, False, False, False], 5) ?cl =
     ([Log Debugf ''Processing client: %s'', Log Debugf ''Sending sync'',
       Log Tracef ''Sending sync %+v to %s from %d'',
       Sendto 3 [0, 41] ''10.0.0.5:319'' None, IncTX MessageSync,
       ReadTX 3 0 3 (Some ''no TX timestamp found''), SetMaxTXTSAttempts 7 3,
       Log Warningf ''Failed to read TX timestamp: %v''],
      Continue, ([], 9), ?cl)"
    by (simp add: client_def worker_def everyone_def)
  from sync_failure_no_followup [where cl = ?cl and p = 0
         and w = "([False], 5)" and eFd = 3
         and ?w1.0 = "([], 6)" and err = "''network is unreachable''"
         and s = "worker HWTIMESTAMP []" and gFd = 6, OF t b r] s2
  have two: "job ?sys (worker HWTIMESTAMP []) 3 6 0 ([False], 5) ?cl =
     ([Log Debugf ''Processing client: %s'', Log Debugf ''Sending sync'',
       Log Tracef ''Sending sync %+v to %s from %d'',
       Sendto 3 [0, 41] ''10.0.0.5:319'' (Some ''network is unreachable''),
       Log Errorf ''Failed to send the sync packet: %v''],
      Continue, ([], 6), ?cl)"
    by (simp add: client_def everyone_def)
  from one two show ?thesis by simp
qed

text \<open>
  C5. A Sync job in which every call succeeds (both serializations, both sends and the
  retrieval) has exactly the events below: the bytes of the Sync packet are sent on the
  event descriptor to the client's event address, then the bytes of the Follow-Up on the
  general descriptor to the client's general address, and these are the job's only sends.
  Both packets carry the sequence number the client had when the job began, and the
  client's sequence number is one more after the job. The packet builders are the ones
  modelled from the spec.
\<close>

theorem sync_then_followup_routing:
  assumes "subscriptionType (cl p) = MessageSync"
    and "bytesTo sys (syncPacket (cl p)) = Inr b"
    and "sendto sys w eFd b (eclisa (cl p)) = (w1, None)"
    and "readTXtimestampBuf sys w1 eFd = (w2, ts, n, None)"
    and "bytesTo sys (followupPacket (cl p)
                       (if TimestampType (config s) \<noteq> HWTIMESTAMP
                        then ts + UTCOffset (config s) else ts)) = Inr b'"
    and "sendto sys w2 gFd b' (gclisa (cl p)) = (w3, None)"
  shows "job sys s eFd gFd p w cl =
           ([Log Debugf ''Processing client: %s'', Log Debugf ''Sending sync'',
             Log Tracef ''Sending sync %+v to %s from %d'',
             Sendto eFd b (eclisa (cl p)) None, IncTX MessageSync,
             ReadTX eFd ts n None, SetMaxTXTSAttempts (id_worker s) n,
             Log Debugf ''Read TX timestamp: %v'', Log Debugf ''Sending followup'',
             Log Tracef ''Sending followup %+v with ts: %s to %s from %d'',
             Sendto gFd b' (gclisa (cl p)) None, IncTX MessageFollowUp,
             SetMaxWorkerLoad (id_worker s) (load s),
             SetMaxWorkerQueue (id_worker s) (queueLen sys w3)],
            Next, w3, cl(p := (cl p)\<lparr>sequenceID := sequenceID (cl p) + 1\<rparr>))
       \<and> syncPacket (cl p) = Sync (sequenceID (cl p))
       \<and> followupPacket (cl p)
            (if TimestampType (config s) \<noteq> HWTIMESTAMP then ts + UTCOffset (config s) else ts) =
          FollowUp (sequenceID (cl p))
            (if TimestampType (config s) \<noteq> HWTIMESTAMP then ts + UTCOffset (config s) else ts)"
  using assms by (simp add: job_defs packet_defs)

theorem sync_then_followup_routing_witness:
  "job scripted (worker HWTIMESTAMP []) 3 6 0 ([], 5) (everyone (client MessageSync 41)) =
     ([Log Debugf ''Processing client: %s'', Log Debugf ''Sending sync'',
       Log Tracef ''Sending sync %+v to %s from %d'',
       Sendto 3 [0, 41] ''10.0.0.5:319'' None, IncTX MessageSync,
       ReadTX 3 100 1 None, SetMaxTXTSAttempts 7 1,
       Log Debugf ''Read TX timestamp: %v'', Log Debugf ''Sending followup'',
       Log Tracef ''Sending followup %+v with ts: %s to %s from %d'',
       Sendto 6 [8, 41, 100] ''10.0.0.5:320'' None, IncTX MessageFollowUp,
       SetMaxWorkerLoad 7 2, SetMaxWorkerQueue 7 0],
      Next, ([], 8), (everyone (client MessageSync 41))(0 := client MessageSync 42))
   \<and> bytesTo scripted (Sync 41) = Inr [0, 41]
   \<and> bytesTo scripted (FollowUp 41 100) = Inr [8, 41, 100]"
proof -
  let ?cl = "everyone (client MessageSync 41)"
  have t: "subscriptionType (?cl 0) = MessageSync" by (simp add: scripted_defs)
  have b: "bytesTo scripted (syncPacket (?cl 0)) = Inr [0, 41]"
    by (simp add: packet_defs scripted_defs)
  have s1: "sendto scripted ([], 5) 3 [0, 41] (eclisa (?cl 0)) = (([], 6), None)"
    by (simp add: scripted_defs)
  have x: "readTXtimestampBuf scripted ([], 6) 3 = (([], 7), 100, 1, None)"
    by (simp add: scripted_defs)
  have f: "bytesTo scripted (followupPacket (?cl 0)
             (if TimestampType (config (worker HWTIMESTAMP [])) \<noteq> HWTIMESTAMP
              then 100 + UTCOffset (config (worker HWTIMESTAMP [])) else 100)) =
           Inr [8, 41, 100]"
    by (simp add: packet_defs scripted_defs)
  have s2: "sendto scripted ([], 7) 6 [8, 41, 100] (gclisa (?cl 0)) = (([], 8), None)"
    by (simp add: scripted_defs)
  from sync_then_followup_routing [where cl = ?cl and p = 0 and sys = scripted
         and s = "worker HWTIMESTAMP []", OF t b s1 x f s2]
  show ?thesis
    by (simp add: packet_defs scripted_defs)
qed
subsection \<open>Failure policy\<close>

text \<open>
  C4. When a send of a job fails: if the job is a DelayResp the loop ends there, the result
  holds the events of that job only and every later job is left in the queue; if the job
  is a Sync or an Announce the clients are unchanged and the loop goes on with the rest of
  the queue from the world the job left.
\<close>

theorem send_failure_policy:
  assumes "job sys s eFd gFd p w cl = (evs, fl, w', cl')"
    and "Sendto f b a (Some err) \<in> set evs"
  shows "(subscriptionType (cl p) = MessageDelayResp \<longrightarrow>
            loop sys s eFd gFd (Some p # qs) w cl = ([evs], Returned, qs, w', cl'))
       \<and> (subscriptionType (cl p) \<in> {MessageSync, MessageAnnounce} \<longrightarrow>
            cl' = cl \<and>
            loop sys s eFd gFd (Some p # qs) w cl =
              (case loop sys s eFd gFd qs w' cl of
                 (es, out, rest, w'', cl'') \<Rightarrow> (evs # es, out, rest, w'', cl'')))"
  using assms
  by (auto simp: job_defs split: MessageType.splits sum.splits prod.splits option.splits)

theorem send_failure_policy_witness:
  "loop scripted (worker HWTIMESTAMP []) 3 6 [Some 0, Some 0] ([False], 5)
        (everyone (client MessageDelayResp 41)) =
     ([[Log Debugf ''Processing client: %s'', Log Debugf ''Sending delay response'',
        Log Tracef ''Sending delay response %+v to %s from %d'',
        Sendto 6 [9, 1] ''10.0.0.5:320'' (Some ''network is unreachable''),
        Log Errorf ''Failed to send the delay response: %v'']],
      Returned, [Some 0], ([], 6), everyone (client MessageDelayResp 41))"
proof -
  have j: "job scripted (worker HWTIMESTAMP []) 3 6 0 ([False], 5)
               (everyone (client MessageDelayResp 41)) =
             ([Log Debugf ''Processing client: %s'', Log Debugf ''Sending delay response'',
               Log Tracef ''Sending delay response %+v to %s from %d'',
               Sendto 6 [9, 1] ''10.0.0.5:320'' (Some ''network is unreachable''),
               Log Errorf ''Failed to send the delay response: %v''],
              Return, ([], 6), everyone (client MessageDelayResp 41))"
    by (simp add: job_defs scripted_defs)
  have m: "Sendto 6 [9, 1] ''10.0.0.5:320'' (Some ''network is unreachable'')
             \<in> set [Log Debugf ''Processing client: %s'', Log Debugf ''Sending delay response'',
                    Log Tracef ''Sending delay response %+v to %s from %d'',
                    Sendto 6 [9, 1] ''10.0.0.5:320'' (Some ''network is unreachable''),
                    Log Errorf ''Failed to send the delay response: %v'']"
    by simp
  from send_failure_policy [OF j m, of "[Some 0]"] show ?thesis
    by (simp add: everyone_def client_def)
qed

text \<open>
  C6. A job whose message type is not Sync, Announce or DelayResp is logged as unknown and
  skipped: the events of the job are the two log lines, with no stats call and no send;
  the world and every client, the sequence number included, are as before; the loop goes
  on with \<open>continue\<close>.
\<close>

theorem unknown_type_skipped:
  assumes "subscriptionType (cl p) \<notin> {MessageSync, MessageAnnounce, MessageDelayResp}"
  shows "job sys s eFd gFd p w cl =
          ([Log Debugf ''Processing client: %s'', Log Errorf ''Unknown subscription type: %v''],
           Continue, w, cl)"
  using assms by (cases "subscriptionType (cl p)") (simp_all add: job_def Let_def)

theorem unknown_type_skipped_witness:
  "subscriptionType (client (MessageOther 12) 41)
     \<notin> {MessageSync, MessageAnnounce, MessageDelayResp} \<and>
   job scripted (worker HWTIMESTAMP [Some 0]) 3 6 0 ([], 5)
       (everyone (client (MessageOther 12) 41)) =
     ([Log Debugf ''Processing client: %s'', Log Errorf ''Unknown subscription type: %v''],
      Continue, ([], 5), everyone (client (MessageOther 12) 41))"
  using unknown_type_skipped [of "everyone (client (MessageOther 12) 41)" 0 scripted
          "worker HWTIMESTAMP [Some 0]" 3 6 "([], 5)"]
  by (simp add: client_def everyone_def)

subsection \<open>Startup and teardown of a run\<close>

text \<open>
  C7. If an event or general socket bind fails, or enabling timestamps fails, or the
  configured timestamp type is neither hardware nor software, the run ends in
  \<open>log.Fatalf\<close>: the loop is never entered, so no job has events, the whole queue is
  still pending, the clients are untouched, and the run made no send and no stats call.
\<close>

theorem fatal_startup_no_jobs:
  assumes "r = Start sys s w cl"
    and "(\<exists>ip e. ListenUDP ip (Inl e) \<in> set (startup r))
       \<or> (\<exists>f i e. EnableHW f i (Some e) \<in> set (startup r))
       \<or> (\<exists>f e. EnableSW f (Some e) \<in> set (startup r))
       \<or> TimestampType (config s) \<notin> {HWTIMESTAMP, SWTIMESTAMP}"
  shows "outcome r = Exited \<and> jobs r = [] \<and> pending r = queue s \<and> clients r = cl
       \<and> filter isSendto (trace r) = [] \<and> filter isStat (trace r) = []"
proof -
  have "(\<exists>e \<in> set (startup r). startupFailure e)
        \<or> TimestampType (config s) \<notin> {HWTIMESTAMP, SWTIMESTAMP}"
    using assms(2) by fastforce
  then have "filter startupFailure (startup r) \<noteq> []
        \<or> TimestampType (config s) \<notin> {HWTIMESTAMP, SWTIMESTAMP}"
    by (simp add: filter_empty_conv)
  with Start_entered [of sys s w cl] assms(1) have ex: "outcome r = Exited"
    by blast
  with Start_exited_fields [of sys s w cl] assms(1)
  have g: "jobs r = []" "teardown r = []" "pending r = queue s" "clients r = cl"
    by simp_all
  then have "trace r = startup r" by (simp add: trace_def)
  with Start_startup [of sys s w cl] assms(1) ex g show ?thesis by simp
qed

theorem fatal_startup_no_jobs_witness:
  "ListenUDP ''::'' (Inl ''address already in use'')
     \<in> set (startup (Start scripted (worker HWTIMESTAMP [Some 0]) ([True, True, True, False], 0)
                       (everyone (client MessageSync 41))))
   \<and> outcome (Start scripted (worker HWTIMESTAMP [Some 0]) ([True, True, True, False], 0)
                (everyone (client MessageSync 41))) = Exited
   \<and> jobs (Start scripted (worker HWTIMESTAMP [Some 0]) ([True, True, True, False], 0)
             (everyone (client MessageSync 41))) = []
   \<and> pending (Start scripted (worker HWTIMESTAMP [Some 0]) ([True, True, True, False], 0)
                (everyone (client MessageSync 41))) = [Some 0]"
proof -
  let ?r = "Start scripted (worker HWTIMESTAMP [Some 0]) ([True, True, True, False], 0)
              (everyone (client MessageSync 41))"
  have s: "startup ?r =
             [ListenUDP ''::'' (Inr 0), ConnFd 0 (Inr 3), EnableHW 3 ''eth0'' None,
              ListenUDP ''::'' (Inl ''address already in use''),
              Log Fatalf ''Binding to general socket error: %s'']"
    by (simp add: Start_def scripted_def answer_def worker_def enableTimestamps_def fatal_def)
  then have h: "(\<exists>ip e. ListenUDP ip (Inl e) \<in> set (startup ?r))
       \<or> (\<exists>f i e. EnableHW f i (Some e) \<in> set (startup ?r))
       \<or> (\<exists>f e. EnableSW f (Some e) \<in> set (startup ?r))
       \<or> TimestampType (config (worker HWTIMESTAMP [Some 0])) \<notin> {HWTIMESTAMP, SWTIMESTAMP}"
    by simp
  from fatal_startup_no_jobs [OF refl h] s show ?thesis
    by (simp add: worker_def)
qed

text \<open>
  C8, as amended. When the run does not end in \<open>log.Fatalf\<close> (Start returns, or panics on
  a nil job), the startup opened the event socket and then the general socket, the
  teardown is the close of that general socket followed by the close of that event socket,
  and every socket opened anywhere in the run is closed there. When the run ends in
  \<open>log.Fatalf\<close>, no job ran and the run closes no socket.
\<close>

theorem sockets_closed_unless_fatal:
  assumes "r = Start sys s w cl"
  shows "(outcome r \<noteq> Exited \<longrightarrow>
            (\<exists>econn eFd en gconn gFd.
               startup r =
                 [ListenUDP (IP (config s)) (Inr econn), ConnFd econn (Inr eFd)] @ en @
                 [ListenUDP (IP (config s)) (Inr gconn), ConnFd gconn (Inr gFd)] \<and>
               (en = [EnableHW eFd (Interface (config s)) None] \<or> en = [EnableSW eFd None]) \<and>
               teardown r = [Close gconn, Close econn]) \<and>
            (\<forall>ip c. ListenUDP ip (Inr c) \<in> set (trace r) \<longrightarrow> Close c \<in> set (teardown r)))
       \<and> (outcome r = Exited \<longrightarrow> jobs r = [] \<and> (\<forall>c. Close c \<notin> set (trace r)))"
proof (intro conjI impI)
  assume ne: "outcome r \<noteq> Exited"
  with Start_run [of sys s w cl] assms obtain econn eFd en gconn gFd w5 where
    st: "startup r = [ListenUDP (IP (config s)) (Inr econn), ConnFd econn (Inr eFd)] @ en @
           [ListenUDP (IP (config s)) (Inr gconn), ConnFd gconn (Inr gFd)]"
    and en: "en = [EnableHW eFd (Interface (config s)) None] \<or> en = [EnableSW eFd None]"
    and td: "teardown r = [Close gconn, Close econn]"
    and lp: "loop sys s eFd gFd (queue s) w5 cl =
               (jobs r, outcome r, pending r, world r, clients r)"
    by blast
  from st en td show "\<exists>econn eFd en gconn gFd.
               startup r =
                 [ListenUDP (IP (config s)) (Inr econn), ConnFd econn (Inr eFd)] @ en @
                 [ListenUDP (IP (config s)) (Inr gconn), ConnFd gconn (Inr gFd)] \<and>
               (en = [EnableHW eFd (Interface (config s)) None] \<or> en = [EnableSW eFd None]) \<and>
               teardown r = [Close gconn, Close econn]"
    by blast
  show "\<forall>ip c. ListenUDP ip (Inr c) \<in> set (trace r) \<longrightarrow> Close c \<in> set (teardown r)"
  proof (intro allI impI)
    fix ip c
    assume m: "ListenUDP ip (Inr c) \<in> set (trace r)"
    have "ListenUDP ip (Inr c) \<notin> set (concat (jobs r))"
    proof
      assume "ListenUDP ip (Inr c) \<in> set (concat (jobs r))"
      then obtain evs where e: "evs \<in> set (jobs r)" "ListenUDP ip (Inr c) \<in> set evs"
        by auto
      from loop_jobs [OF lp e(1)] e(2) job_sockets(1) show False by fastforce
    qed
    with m td have "ListenUDP ip (Inr c) \<in> set (startup r)"
      by (auto simp: trace_def)
    with st en have "c = econn \<or> c = gconn" by auto
    with td show "Close c \<in> set (teardown r)" by auto
  qed
next
  assume ex: "outcome r = Exited"
  with Start_exited_fields [of sys s w cl] assms
  have g: "jobs r = []" "teardown r = []" by simp_all
  then show "jobs r = []" by simp
  from g have "trace r = startup r" by (simp add: trace_def)
  with Start_startup_close [of _ sys s w cl] assms
  show "\<forall>c. Close c \<notin> set (trace r)" by simp
qed

theorem sockets_closed_unless_fatal_witness:
  "outcome (Start scripted (worker HWTIMESTAMP [Some 0]) ([], 0) (everyone (client MessageSync 41)))
     \<noteq> Exited
   \<and> startup (Start scripted (worker HWTIMESTAMP [Some 0]) ([], 0)
                (everyone (client MessageSync 41))) =
       [ListenUDP ''::'' (Inr 0), ConnFd 0 (Inr 3), EnableHW 3 ''eth0'' None,
        ListenUDP ''::'' (Inr 3), ConnFd 3 (Inr 6)]
   \<and> teardown (Start scripted (worker HWTIMESTAMP [Some 0]) ([], 0)
                 (everyone (client MessageSync 41))) = [Close 3, Close 0]"
proof -
  let ?r = "Start scripted (worker HWTIMESTAMP [Some 0]) ([], 0) (everyone (client MessageSync 41))"
  have o: "outcome ?r = Returned"
    by (simp add: Start_def enableTimestamps_def job_defs packet_defs scripted_defs)
  have s: "startup ?r =
             [ListenUDP ''::'' (Inr 0), ConnFd 0 (Inr 3), EnableHW 3 ''eth0'' None,
              ListenUDP ''::'' (Inr 3), ConnFd 3 (Inr 6)]"
    by (simp add: Start_def enableTimestamps_def job_defs packet_defs scripted_defs)
  from sockets_closed_unless_fatal [OF refl, of scripted "worker HWTIMESTAMP [Some 0]" "([], 0)"
         "everyone (client MessageSync 41)"] o
  obtain econn eFd en gconn gFd where
    a: "startup ?r =
          [ListenUDP (IP (config (worker HWTIMESTAMP [Some 0]))) (Inr econn),
           ConnFd econn (Inr eFd)] @ en @
          [ListenUDP (IP (config (worker HWTIMESTAMP [Some 0]))) (Inr gconn),
           ConnFd gconn (Inr gFd)]"
    and e: "en = [EnableHW eFd (Interface (config (worker HWTIMESTAMP [Some 0]))) None]
            \<or> en = [EnableSW eFd None]"
    and t: "teardown ?r = [Close gconn, Close econn]"
    by auto
  from a e s have "econn = 0 \<and> gconn = 3" by auto
  with t o s show ?thesis by simp
qed

text \<open>
  C8 as stated fails: in the run below the event socket is opened, the bind of the general
  socket fails, the run ends in \<open>log.Fatalf\<close>, and the event socket is never closed.
\<close>

theorem sockets_closed_counterexample:
  "outcome (Start scripted (worker HWTIMESTAMP [Some 0]) ([True, True, True, False], 0)
              (everyone (client MessageSync 41))) = Exited
   \<and> ListenUDP ''::'' (Inr 0)
       \<in> set (trace (Start scripted (worker HWTIMESTAMP [Some 0]) ([True, True, True, False], 0)
                       (everyone (client MessageSync 41))))
   \<and> Close 0
       \<notin> set (trace (Start scripted (worker HWTIMESTAMP [Some 0]) ([True, True, True, False], 0)
                       (everyone (client MessageSync 41))))"
  by (simp add: Start_def scripted_def answer_def worker_def enableTimestamps_def fatal_def
                trace_def)

subsection \<open>Descriptors and transmit counts\<close>

text \<open>
  C9. Every send of a job is either the bytes of the client's Sync packet, on the event
  descriptor to the event address, in a Sync job; or, on the general descriptor to the
  general address, the bytes of a Follow-Up of the client in a Sync job, of its Announce
  packet in an Announce job, or of its Delay-Response packet in a DelayResp job. Every
  timestamp retrieval is on the event descriptor. When the two descriptors differ, every
  send on the event descriptor carries the bytes of the Sync packet.
\<close>

theorem descriptor_discipline:
  assumes "job sys s eFd gFd p w cl = (evs, fl, w', cl')"
  shows "(\<forall>f b a r. Sendto f b a r \<in> set evs \<longrightarrow>
            (f = eFd \<and> a = eclisa (cl p) \<and> subscriptionType (cl p) = MessageSync \<and>
             bytesTo sys (syncPacket (cl p)) = Inr b)
          \<or> (f = gFd \<and> a = gclisa (cl p) \<and>
               (subscriptionType (cl p) = MessageSync \<and>
                  (\<exists>ts. bytesTo sys (followupPacket (cl p) ts) = Inr b)
                \<or> subscriptionType (cl p) = MessageAnnounce \<and>
                    bytesTo sys (announcePacket (cl p)) = Inr b
                \<or> subscriptionType (cl p) = MessageDelayResp \<and>
                    bytesTo sys (DelayResp (delayRespP (cl p))) = Inr b)))
       \<and> (\<forall>f t n r. ReadTX f t n r \<in> set evs \<longrightarrow> f = eFd)
       \<and> (eFd \<noteq> gFd \<longrightarrow>
            (\<forall>b a r. Sendto eFd b a r \<in> set evs \<longrightarrow>
               a = eclisa (cl p) \<and> subscriptionType (cl p) = MessageSync \<and>
               bytesTo sys (syncPacket (cl p)) = Inr b))"
proof -
  have one: "(f = eFd \<and> a = eclisa (cl p) \<and> subscriptionType (cl p) = MessageSync \<and>
             bytesTo sys (syncPacket (cl p)) = Inr b)
          \<or> (f = gFd \<and> a = gclisa (cl p) \<and>
               (subscriptionType (cl p) = MessageSync \<and>
                  (\<exists>ts. bytesTo sys (followupPacket (cl p) ts) = Inr b)
                \<or> subscriptionType (cl p) = MessageAnnounce \<and>
                    bytesTo sys (announcePacket (cl p)) = Inr b
                \<or> subscriptionType (cl p) = MessageDelayResp \<and>
                    bytesTo sys (DelayResp (delayRespP (cl p))) = Inr b))"
    if "Sendto f b a r \<in> set evs" for f b a r
    using assms that
    by (auto simp: job_defs
             split: MessageType.splits sum.splits prod.splits option.splits if_splits)
  have two: "f = eFd" if "ReadTX f t n r \<in> set evs" for f t n r
    using assms that
    by (auto simp: job_defs
             split: MessageType.splits sum.splits prod.splits option.splits if_splits)
  from one two show ?thesis by blast
qed

theorem descriptor_discipline_witness:
  "Sendto 3 [0, 41] ''10.0.0.5:319'' None
     \<in> set (fst (job scripted (worker HWTIMESTAMP []) 3 6 0 ([], 5)
                    (everyone (client MessageSync 41))))
   \<and> (3::int) \<noteq> 6
   \<and> ''10.0.0.5:319'' = eclisa (everyone (client MessageSync 41) 0)
   \<and> bytesTo scripted (syncPacket (everyone (client MessageSync 41) 0)) = Inr [0, 41]"
proof -
  let ?j = "job scripted (worker HWTIMESTAMP []) 3 6 0 ([], 5) (everyone (client MessageSync 41))"
  have m: "Sendto 3 [0, 41] ''10.0.0.5:319'' None \<in> set (fst ?j)"
    by (simp add: job_defs packet_defs scripted_defs)
  have j: "?j = (fst ?j, fst (snd ?j), fst (snd (snd ?j)), snd (snd (snd ?j)))"
    by simp
  have d: "(3::int) \<noteq> 6" by simp
  from descriptor_discipline [OF j] d m show ?thesis by blast
qed

text \<open>
  C10. In the events of any run, Follow-Up transmit counts are at most as many as Sync
  transmit counts. A job that counts a Follow-Up counted a Sync earlier in the same job,
  and a job that logged a failure counts no Follow-Up, whether or not it counted a Sync.
  In the scripted run whose timestamp retrieval fails, one Sync and no Follow-Up is
  counted.
\<close>

theorem followup_count_bounded:
  assumes "r = Start sys s w cl"
  shows "count_list (trace r) (IncTX MessageFollowUp) \<le> count_list (trace r) (IncTX MessageSync)
       \<and> (\<forall>evs \<in> set (jobs r). IncTX MessageFollowUp \<in> set evs \<longrightarrow>
            (\<exists>pre post. evs = pre @ IncTX MessageFollowUp # post \<and>
                        IncTX MessageSync \<in> set pre))
       \<and> (\<forall>evs \<in> set (jobs r). failed evs \<longrightarrow> IncTX MessageFollowUp \<notin> set evs)
       \<and> count_list (trace (Start scripted (worker HWTIMESTAMP [Some 0])
                               ([True, True, True, True, True, True, False], 0)
                               (everyone (client MessageSync 41)))) (IncTX MessageFollowUp)
           < count_list (trace (Start scripted (worker HWTIMESTAMP [Some 0])
                                  ([True, True, True, True, True, True, False], 0)
                                  (everyone (client MessageSync 41)))) (IncTX MessageSync)"
proof (intro conjI)
  have st: "count_list (startup r) (IncTX t) = 0" for t
    using Start_startup(2) [of sys s w cl] assms
    by (fastforce simp: filter_empty_conv count_list_0_iff)
  show "count_list (trace r) (IncTX MessageFollowUp) \<le> count_list (trace r) (IncTX MessageSync)"
  proof (cases "outcome r = Exited")
    case True
    with Start_exited_fields [of sys s w cl] assms
    have "jobs r = []" "teardown r = []" by simp_all
    with st show ?thesis by (simp add: trace_def)
  next
    case False
    with Start_run [of sys s w cl] assms obtain econn eFd gconn gFd w5 where
      td: "teardown r = [Close gconn, Close econn]"
      and lp: "loop sys s eFd gFd (queue s) w5 cl =
                 (jobs r, outcome r, pending r, world r, clients r)"
      by blast
    from loop_counts [OF lp] st td show ?thesis by (simp add: trace_def)
  qed
  show "\<forall>evs \<in> set (jobs r). IncTX MessageFollowUp \<in> set evs \<longrightarrow>
          (\<exists>pre post. evs = pre @ IncTX MessageFollowUp # post \<and> IncTX MessageSync \<in> set pre)"
  proof (intro ballI impI)
    fix evs
    assume a: "evs \<in> set (jobs r)" and m: "IncTX MessageFollowUp \<in> set evs"
    from m have "evs \<noteq> []" by auto
    with Start_jobs(2) [of evs sys s w cl] a assms obtain eFd gFd p w0 cl0 fl w1 cl1 where
      j: "job sys s eFd gFd p w0 cl0 = (evs, fl, w1, cl1)"
      by blast
    from job_followup [OF j m] obtain b ts n b' where
      e: "evs = [Log Debugf ''Processing client: %s'', Log Debugf ''Sending sync'',
                 Log Tracef ''Sending sync %+v to %s from %d'',
                 Sendto eFd b (eclisa (cl0 p)) None, IncTX MessageSync,
                 ReadTX eFd ts n None, SetMaxTXTSAttempts (id_worker s) n,
                 Log Debugf ''Read TX timestamp: %v'', Log Debugf ''Sending followup'',
                 Log Tracef ''Sending followup %+v with ts: %s to %s from %d'',
                 Sendto gFd b' (gclisa (cl0 p)) None, IncTX MessageFollowUp,
                 SetMaxWorkerLoad (id_worker s) (load s),
                 SetMaxWorkerQueue (id_worker s) (queueLen sys w1)]"
      by blast
    let ?pre = "[Log Debugf ''Processing client: %s'', Log Debugf ''Sending sync'',
                 Log Tracef ''Sending sync %+v to %s from %d'',
                 Sendto eFd b (eclisa (cl0 p)) None, IncTX MessageSync,
                 ReadTX eFd ts n None, SetMaxTXTSAttempts (id_worker s) n,
                 Log Debugf ''Read TX timestamp: %v'', Log Debugf ''Sending followup'',
                 Log Tracef ''Sending followup %+v with ts: %s to %s from %d'',
                 Sendto gFd b' (gclisa (cl0 p)) None]"
    let ?post = "[SetMaxWorkerLoad (id_worker s) (load s),
                  SetMaxWorkerQueue (id_worker s) (queueLen sys w1)]"
    from e have "evs = ?pre @ IncTX MessageFollowUp # ?post \<and> IncTX MessageSync \<in> set ?pre"
      by simp
    then show "\<exists>pre post. evs = pre @ IncTX MessageFollowUp # post \<and> IncTX MessageSync \<in> set pre"
      by blast
  qed
  show "\<forall>evs \<in> set (jobs r). failed evs \<longrightarrow> IncTX MessageFollowUp \<notin> set evs"
  proof (intro ballI impI)
    fix evs
    assume a: "evs \<in> set (jobs r)" and f: "failed evs"
    from f have "evs \<noteq> []" by (auto simp: failed_def)
    with Start_jobs(2) [of evs sys s w cl] a assms obtain eFd gFd p w0 cl0 fl w1 cl1 where
      j: "job sys s eFd gFd p w0 cl0 = (evs, fl, w1, cl1)"
      by blast
    from job_counts(2) [OF j f] show "IncTX MessageFollowUp \<notin> set evs" .
  qed
  show "count_list (trace (Start scripted (worker HWTIMESTAMP [Some 0])
                               ([True, True, True, True, True, True, False], 0)
                               (everyone (client MessageSync 41)))) (IncTX MessageFollowUp)
           < count_list (trace (Start scripted (worker HWTIMESTAMP [Some 0])
                                  ([True, True, True, True, True, True, False], 0)
                                  (everyone (client MessageSync 41)))) (IncTX MessageSync)"
    by (simp add: Start_def enableTimestamps_def job_defs packet_defs scripted_defs trace_def)
qed

theorem followup_count_bounded_witness:
  "count_list (trace (Start scripted (worker HWTIMESTAMP [Some 0, Some 0])
                        ([True, True, True, True, True, True, False], 0)
                        (everyone (client MessageSync 41)))) (IncTX MessageFollowUp) = 1
   \<and> count_list (trace (Start scripted (worker HWTIMESTAMP [Some 0, Some 0])
                        ([True, True, True, True, True, True, False], 0)
                        (everyone (client MessageSync 41)))) (IncTX MessageSync) = 2
   \<and> count_list (trace (Start scripted (worker HWTIMESTAMP [Some 0, Some 0])
                        ([True, True, True, True, True, True, False], 0)
                        (everyone (client MessageSync 41)))) (IncTX MessageFollowUp)
       \<le> count_list (trace (Start scripted (worker HWTIMESTAMP [Some 0, Some 0])
                        ([True, True, True, True, True, True, False], 0)
                        (everyone (client MessageSync 41)))) (IncTX MessageSync)"
proof -
  let ?r = "Start scripted (worker HWTIMESTAMP [Some 0, Some 0])
              ([True, True, True, True, True, True, False], 0) (everyone (client MessageSync 41))"
  have c: "count_list (trace ?r) (IncTX MessageFollowUp) = 1"
    "count_list (trace ?r) (IncTX MessageSync) = 2"
    by (simp_all add: Start_def enableTimestamps_def job_defs packet_defs scripted_defs trace_def)
  from followup_count_bounded [OF refl, of scripted "worker HWTIMESTAMP [Some 0, Some 0]"
         "([True, True, True, True, True, True, False], 0)" "everyone (client MessageSync 41)"] c
  show ?thesis by simp
qed

end
